theory Spec2Isabelle
  imports Complex_Main "HOL-Library.AList" "HOL-Library.Sublist" "HOL-Library.Multiset"
begin

section \<open>JavaScript values, exceptions and the outcome of a fetch\<close>

text \<open>
  The store and the proxy route handle whatever \<^verbatim>\<open>response.json()\<close> returns, so the
  model carries untyped JavaScript values: \<^verbatim>\<open>undefined\<close>, and the values JSON can
  denote. An object is the list of its own properties; a property is looked up with
  \<open>map_of\<close>. A number is the value of a double as JSON can give it: a rational, or an
  infinity for a literal out of range. Numbers are only tested for truth here.
\<close>

datatype jsnum = Finite rat | PlusInfinity | MinusInfinity

datatype jsval =
    JUndefined
  | JNull
  | JBool bool
  | JNum jsnum
  | JStr string
  | JArr "jsval list"
  | JObj "(string \<times> jsval) list"

datatype exn = TypeError | NetworkError | SyntaxError

text \<open>
  What \<^verbatim>\<open>await fetch(...)\<close> followed by \<^verbatim>\<open>await response.json()\<close> can do: the fetch
  rejects (transport failure), or it resolves with an HTTP status (any status: fetch does
  not reject on 4xx or 5xx) and a body that either parses as JSON or does not.
\<close>

datatype json_body = NotJson | Json jsval

datatype fetch_outcome = Rejected | Resolved nat json_body

fun await_json :: "fetch_outcome \<Rightarrow> exn + jsval" where
  "await_json Rejected = Inl NetworkError"
| "await_json (Resolved st NotJson) = Inl SyntaxError"
| "await_json (Resolved st (Json data)) = Inr data"

text \<open>
  Property read \<^verbatim>\<open>v.k\<close>, for the property names the sources read
  (\<^verbatim>\<open>connection_details\<close>, \<^verbatim>\<open>message\<close>, \<^verbatim>\<open>state\<close>, \<^verbatim>\<open>client_data\<close>,
  \<^verbatim>\<open>current_stage\<close>, \<^verbatim>\<open>response\<close>, \<^verbatim>\<open>greeting\<close>): reading from
  \<^verbatim>\<open>undefined\<close> or \<^verbatim>\<open>null\<close> throws a TypeError, an object gives its property or
  \<^verbatim>\<open>undefined\<close>, and a boolean, number, string or array has none of these names.
\<close>

fun get_prop :: "jsval \<Rightarrow> string \<Rightarrow> exn + jsval" where
  "get_prop JUndefined k = Inl TypeError"
| "get_prop JNull k = Inl TypeError"
| "get_prop (JObj ps) k = Inr (case map_of ps k of None \<Rightarrow> JUndefined | Some v \<Rightarrow> v)"
| "get_prop v k = Inr JUndefined"

text \<open>The value of \<^verbatim>\<open>v.k\<close> where the read does not throw.\<close>

definition read_prop :: "jsval \<Rightarrow> string \<Rightarrow> jsval" where
  "read_prop v k = (case get_prop v k of Inl e \<Rightarrow> JUndefined | Inr w \<Rightarrow> w)"

text \<open>Truthiness, as \<^verbatim>\<open>if (v)\<close>, \<^verbatim>\<open>v && w\<close> and \<^verbatim>\<open>v || w\<close> test it.\<close>

fun truthy :: "jsval \<Rightarrow> bool" where
  "truthy JUndefined = False"
| "truthy JNull = False"
| "truthy (JBool b) = b"
| "truthy (JNum n) = (n \<noteq> Finite 0)"
| "truthy (JStr s) = (s \<noteq> [])"
| "truthy (JArr xs) = True"
| "truthy (JObj ps) = True"

definition js_or :: "jsval \<Rightarrow> jsval \<Rightarrow> jsval" where
  "js_or v w = (if truthy v then v else w)"

text \<open>
  Decimal numerals, as a template literal prints an integral number of magnitude below
  \<^verbatim>\<open>1e21\<close> (every clock reading in milliseconds is one).
\<close>

fun dec_of_nat :: "nat \<Rightarrow> string" where
  "dec_of_nat n =
     (if n < 10 then [char_of (48 + n)]
      else dec_of_nat (n div 10) @ [char_of (48 + n mod 10)])"

definition dec_of_int :: "int \<Rightarrow> string" where
  "dec_of_int i = (if i < 0 then CHR ''-'' # dec_of_nat (nat (- i)) else dec_of_nat (nat i))"

text \<open>Reading a decimal numeral back; used to show that printing loses nothing.\<close>

definition val_of_dec :: "string \<Rightarrow> nat" where
  "val_of_dec ds = foldl (\<lambda>a c. 10 * a + (of_char c - 48)) 0 ds"

text \<open>
  The own enumerable properties an object spread \<^verbatim>\<open>{...v}\<close> copies: those of an
  object, the indexed elements of an array, the indexed characters of a string, and
  nothing for the other values.
\<close>

fun indexed :: "nat \<Rightarrow> jsval list \<Rightarrow> (string \<times> jsval) list" where
  "indexed i [] = []"
| "indexed i (v # vs) = (dec_of_nat i, v) # indexed (Suc i) vs"

fun own_props :: "jsval \<Rightarrow> (string \<times> jsval) list" where
  "own_props (JObj ps) = ps"
| "own_props (JArr vs) = indexed 0 vs"
| "own_props (JStr s) = indexed 0 (map (\<lambda>c. JStr [c]) s)"
| "own_props v = []"

text \<open>\<^verbatim>\<open>{ ...a, ...b }\<close>: the properties of \<open>a\<close>, overwritten and extended by those of \<open>b\<close>.\<close>

definition spread2 :: "jsval \<Rightarrow> jsval \<Rightarrow> jsval" where
  "spread2 a b = JObj (AList.merge (own_props a) (own_props b))"

section \<open>HTTP requests\<close>

datatype http_method = GET_method | POST_method

text \<open>
  A request as \<^verbatim>\<open>fetch(url, init)\<close> issues it. The body is the value handed to
  \<^verbatim>\<open>JSON.stringify\<close>; its serialisation to text is not modelled.
\<close>

record request =
  req_url :: string
  req_method :: http_method
  req_headers :: "(string \<times> string) list"
  req_body :: "jsval option"

definition json_headers :: "(string \<times> string) list" where
  "json_headers = [(''Content-Type'', ''application/json'')]"

section \<open>The Mode/Session store (frontend/store/agentStore.ts)\<close>

datatype mode = TextMode | VoiceMode

datatype role = User | Assistant

record Message =
  role :: role
  content :: jsval
  timestamp :: int

text \<open>
  The state fields of \<^verbatim>\<open>AgentState\<close>. Fields assigned from a backend response hold
  whatever value the response carried, so they are \<open>jsval\<close>s; \<^verbatim>\<open>null\<close> connection
  details are \<open>JNull\<close>.
\<close>

record AgentState =
  mode :: mode
  isTransitioning :: bool
  clientData :: jsval
  conversationHistory :: "Message list"
  currentStage :: jsval
  sessionId :: string
  connectionDetails :: jsval

definition session_id_at :: "int \<Rightarrow> string" where
  "session_id_at now = ''session_'' @ dec_of_int now"

definition initial_state :: "int \<Rightarrow> AgentState" where
  "initial_state now =
     \<lparr> mode = TextMode, isTransitioning = False, clientData = JObj [],
       conversationHistory = [], currentStage = JStr ''greeting'',
       sessionId = session_id_at now, connectionDetails = JNull \<rparr>"

definition mode_str :: "mode \<Rightarrow> jsval" where
  "mode_str m = (case m of TextMode \<Rightarrow> JStr ''text'' | VoiceMode \<Rightarrow> JStr ''voice'')"

definition role_str :: "role \<Rightarrow> jsval" where
  "role_str r = (case r of User \<Rightarrow> JStr ''user'' | Assistant \<Rightarrow> JStr ''assistant'')"

text \<open>The snapshot \<^verbatim>\<open>agent_state\<close> both POST bodies carry.\<close>

definition agent_state_snapshot :: "AgentState \<Rightarrow> jsval" where
  "agent_state_snapshot s =
     JObj [(''client_data'', clientData s),
           (''conversation_history'',
              JArr (map (\<lambda>msg. JObj [(''role'', role_str (role msg)), (''content'', content msg)])
                        (conversationHistory s))),
           (''current_stage'', currentStage s)]"

definition updateClientData :: "AgentState \<Rightarrow> jsval \<Rightarrow> AgentState" where
  "updateClientData s data = s\<lparr>clientData := spread2 (clientData s) data\<rparr>"

definition addMessage :: "AgentState \<Rightarrow> Message \<Rightarrow> AgentState" where
  "addMessage s message = s\<lparr>conversationHistory := conversationHistory s @ [message]\<rparr>"

subsection \<open>switchMode\<close>

text \<open>
  An async operation runs in two parts: what it does up to its first \<^verbatim>\<open>await\<close>
  (the state it sets and the request it issues), and what it does once the fetch and
  \<^verbatim>\<open>response.json()\<close> have settled. Both parts read the store through \<^verbatim>\<open>get()\<close>,
  so each takes the store's state at that moment.
\<close>

definition switchMode_request :: "AgentState \<Rightarrow> mode \<Rightarrow> request" where
  "switchMode_request s newMode =
     \<lparr> req_url = ''/api/intake/switch-mode'', req_method = POST_method,
       req_headers = json_headers,
       req_body = Some (JObj [(''session_id'', JStr (sessionId s)),
                              (''current_mode'', mode_str (mode s)),
                              (''new_mode'', mode_str newMode),
                              (''agent_state'', agent_state_snapshot s)]) \<rparr>"

definition switchMode_begin :: "AgentState \<Rightarrow> mode \<Rightarrow> AgentState \<times> request" where
  "switchMode_begin s newMode =
     (let s1 = s\<lparr>isTransitioning := True\<rparr> in (s1, switchMode_request s1 newMode))"

text \<open>
  The body of the \<^verbatim>\<open>try\<close> after the awaits: the state it has reached, and the
  exception that ended it, if one did.
\<close>

definition switchMode_try :: "AgentState \<Rightarrow> mode \<Rightarrow> fetch_outcome \<Rightarrow> int \<Rightarrow> AgentState \<times> exn option" where
  "switchMode_try s newMode out now =
     (case await_json out of
        Inl e \<Rightarrow> (s, Some e)
      | Inr data \<Rightarrow>
          if newMode = VoiceMode then
            (case get_prop data ''connection_details'' of
               Inl e \<Rightarrow> (s, Some e)
             | Inr cd \<Rightarrow>
                 (s\<lparr>mode := VoiceMode, isTransitioning := False, connectionDetails := cd\<rparr>, None))
          else
            (let s1 = s\<lparr>mode := TextMode, isTransitioning := False, connectionDetails := JNull\<rparr> in
             case get_prop data ''message'' of
               Inl e \<Rightarrow> (s1, Some e)
             | Inr m \<Rightarrow>
                 (let s2 = (if truthy m
                            then addMessage s1 \<lparr>role = Assistant, content = m, timestamp = now\<rparr>
                            else s1) in
                  case get_prop data ''state'' of
                    Inl e \<Rightarrow> (s2, Some e)
                  | Inr st \<Rightarrow>
                      if truthy st then
                        (case get_prop st ''client_data'' of
                           Inl e \<Rightarrow> (s2, Some e)
                         | Inr cd \<Rightarrow>
                             (case get_prop st ''current_stage'' of
                                Inl e \<Rightarrow> (s2, Some e)
                              | Inr cs \<Rightarrow>
                                  (s2\<lparr>clientData := js_or cd (JObj []),
                                      currentStage := js_or cs (JStr ''greeting'')\<rparr>, None)))
                      else (s2, None))))"

text \<open>The \<^verbatim>\<open>catch\<close>: log, and clear the transitioning flag on the state reached.\<close>

definition switchMode_settle :: "AgentState \<Rightarrow> mode \<Rightarrow> fetch_outcome \<Rightarrow> int \<Rightarrow> AgentState" where
  "switchMode_settle s newMode out now =
     (case switchMode_try s newMode out now of
        (s', Some e) \<Rightarrow> s'\<lparr>isTransitioning := False\<rparr>
      | (s', None) \<Rightarrow> s')"

text \<open>
  A whole call with nothing else touching the store in between; \<open>fetch\<close> is the
  network and the backend, answering the request issued.
\<close>

definition switchMode :: "(request \<Rightarrow> fetch_outcome) \<Rightarrow> AgentState \<Rightarrow> mode \<Rightarrow> int \<Rightarrow> AgentState" where
  "switchMode fetch s newMode now =
     (case switchMode_begin s newMode of
        (s1, req) \<Rightarrow> switchMode_settle s1 newMode (fetch req) now)"

text \<open>
  The one caller, the \<^verbatim>\<open>ModeToggle\<close> button, is disabled while
  \<^verbatim>\<open>isTransitioning\<close> holds.
\<close>

definition ModeToggle_disabled :: "AgentState \<Rightarrow> bool" where
  "ModeToggle_disabled s = isTransitioning s"

subsection \<open>sendTextMessage\<close>

definition sendTextMessage_request :: "AgentState \<Rightarrow> string \<Rightarrow> request" where
  "sendTextMessage_request s message =
     \<lparr> req_url = ''/api/intake/text-message'', req_method = POST_method,
       req_headers = json_headers,
       req_body = Some (JObj [(''message'', JStr message),
                              (''session_id'', JStr (sessionId s)),
                              (''agent_state'', agent_state_snapshot s)]) \<rparr>"

text \<open>The synchronous part: the user's message is appended, then the request is built.\<close>

definition sendTextMessage_begin :: "AgentState \<Rightarrow> string \<Rightarrow> int \<Rightarrow> AgentState \<times> request" where
  "sendTextMessage_begin s message now =
     (let userMessage = \<lparr>role = User, content = JStr message, timestamp = now\<rparr>;
          s1 = addMessage s userMessage
      in (s1, sendTextMessage_request s1 message))"

definition sendTextMessage_try :: "AgentState \<Rightarrow> fetch_outcome \<Rightarrow> int \<Rightarrow> AgentState \<times> exn option" where
  "sendTextMessage_try s out now =
     (case await_json out of
        Inl e \<Rightarrow> (s, Some e)
      | Inr data \<Rightarrow>
          (case get_prop data ''response'' of
             Inl e \<Rightarrow> (s, Some e)
           | Inr r \<Rightarrow>
               (let assistantMessage = \<lparr>role = Assistant, content = r, timestamp = now\<rparr>;
                    s1 = addMessage s assistantMessage
                in case get_prop data ''client_data'' of
                     Inl e \<Rightarrow> (s1, Some e)
                   | Inr cd \<Rightarrow>
                       (let s2 = (if truthy cd then updateClientData s1 cd else s1) in
                        case get_prop data ''state'' of
                          Inl e \<Rightarrow> (s2, Some e)
                        | Inr st \<Rightarrow>
                            if truthy st then
                              (case get_prop st ''current_stage'' of
                                 Inl e \<Rightarrow> (s2, Some e)
                               | Inr cs \<Rightarrow>
                                   if truthy cs then (s2\<lparr>currentStage := cs\<rparr>, None)
                                   else (s2, None))
                            else (s2, None)))))"

definition error_message :: string where
  "error_message = ''Sorry, I encountered an error processing your message. Please try again.''"

text \<open>
  The settled call returns the state, or the exception that would leave the
  \<^verbatim>\<open>catch\<close> block and reject the promise the caller holds.
\<close>

definition sendTextMessage_settle :: "AgentState \<Rightarrow> fetch_outcome \<Rightarrow> int \<Rightarrow> exn + AgentState" where
  "sendTextMessage_settle s out now =
     (case sendTextMessage_try s out now of
        (s', Some e) \<Rightarrow>
          Inr (addMessage s' \<lparr>role = Assistant, content = JStr error_message, timestamp = now\<rparr>)
      | (s', None) \<Rightarrow> Inr s')"

definition sendTextMessage ::
  "(request \<Rightarrow> fetch_outcome) \<Rightarrow> AgentState \<Rightarrow> string \<Rightarrow> int \<Rightarrow> int \<Rightarrow> exn + AgentState" where
  "sendTextMessage fetch s message now now' =
     (case sendTextMessage_begin s message now of
        (s1, req) \<Rightarrow> sendTextMessage_settle s1 (fetch req) now')"

subsection \<open>initialize and reset\<close>

definition initialize_request :: "AgentState \<Rightarrow> request" where
  "initialize_request s =
     \<lparr> req_url = ''/api/intake/initial-greeting/'' @ sessionId s, req_method = GET_method,
       req_headers = [], req_body = None \<rparr>"

definition initialize_begin :: "AgentState \<Rightarrow> AgentState \<times> request" where
  "initialize_begin s = (s, initialize_request s)"

definition initialize_try :: "AgentState \<Rightarrow> fetch_outcome \<Rightarrow> int \<Rightarrow> AgentState \<times> exn option" where
  "initialize_try s out now =
     (case await_json out of
        Inl e \<Rightarrow> (s, Some e)
      | Inr data \<Rightarrow>
          (case get_prop data ''greeting'' of
             Inl e \<Rightarrow> (s, Some e)
           | Inr g \<Rightarrow>
               (let s1 = addMessage s \<lparr>role = Assistant, content = g, timestamp = now\<rparr> in
                case get_prop data ''state'' of
                  Inl e \<Rightarrow> (s1, Some e)
                | Inr st \<Rightarrow>
                    if truthy st then
                      (case get_prop st ''client_data'' of
                         Inl e \<Rightarrow> (s1, Some e)
                       | Inr cd \<Rightarrow>
                           (case get_prop st ''current_stage'' of
                              Inl e \<Rightarrow> (s1, Some e)
                            | Inr cs \<Rightarrow>
                                (s1\<lparr>clientData := js_or cd (JObj []),
                                    currentStage := js_or cs (JStr ''greeting'')\<rparr>, None)))
                    else (s1, None))))"

definition fallback_greeting :: string where
  "fallback_greeting = ''Hello! I'' @ [CHR 0x27] @ ''m your real estate intake assistant. How can I help you today?''"

definition initialize_settle :: "AgentState \<Rightarrow> fetch_outcome \<Rightarrow> int \<Rightarrow> AgentState" where
  "initialize_settle s out now =
     (case initialize_try s out now of
        (s', Some e) \<Rightarrow>
          addMessage s' \<lparr>role = Assistant, content = JStr fallback_greeting, timestamp = now\<rparr>
      | (s', None) \<Rightarrow> s')"

text \<open>
  \<^verbatim>\<open>reset\<close> sets every field and calls \<^verbatim>\<open>initialize\<close> without awaiting it: when
  \<^verbatim>\<open>reset\<close> returns, the greeting has been requested and has not arrived.
\<close>

definition reset :: "AgentState \<Rightarrow> int \<Rightarrow> AgentState \<times> request" where
  "reset s now =
     (let s1 = s\<lparr> mode := TextMode, isTransitioning := False, clientData := JObj [],
                  conversationHistory := [], currentStage := JStr ''greeting'',
                  sessionId := session_id_at now, connectionDetails := JNull \<rparr>
      in initialize_begin s1)"

subsection \<open>Sequences of store operations\<close>

text \<open>
  Every atomic step the store can take other than \<^verbatim>\<open>reset\<close>: the two synchronous
  operations, and the two parts of each async one, in any interleaving.
\<close>

datatype store_event =
    AddMessage Message
  | UpdateClientData jsval
  | SendTextBegin string int
  | SendTextSettle fetch_outcome int
  | InitializeBegin
  | InitializeSettle fetch_outcome int
  | SwitchModeBegin mode
  | SwitchModeSettle mode fetch_outcome int

fun store_step :: "AgentState \<Rightarrow> store_event \<Rightarrow> AgentState" where
  "store_step s (AddMessage m) = addMessage s m"
| "store_step s (UpdateClientData d) = updateClientData s d"
| "store_step s (SendTextBegin message now) = fst (sendTextMessage_begin s message now)"
| "store_step s (SendTextSettle out now) =
     (case sendTextMessage_settle s out now of Inl e \<Rightarrow> s | Inr s' \<Rightarrow> s')"
| "store_step s InitializeBegin = fst (initialize_begin s)"
| "store_step s (InitializeSettle out now) = initialize_settle s out now"
| "store_step s (SwitchModeBegin newMode) = fst (switchMode_begin s newMode)"
| "store_step s (SwitchModeSettle newMode out now) = switchMode_settle s newMode out now"

definition store_run :: "AgentState \<Rightarrow> store_event list \<Rightarrow> AgentState" where
  "store_run s evs = foldl store_step s evs"

section \<open>The transcription aggregator (hooks/useCombinedTranscriptions)\<close>

text \<open>
  A segment as the media SDK delivers it. The SDK's type is not part of this repository:
  the fields the hook's own interface names are modelled, and the remaining fields, which
  the spread \<^verbatim>\<open>{ ...val, role: ... }\<close> copies unread, are the parameter \<open>'x\<close>.
\<close>

record 'x ReceivedSegment =
  rs_id :: string
  rs_text :: string
  rs_firstReceivedTime :: int
  rs_rest :: 'x

text \<open>
  An element of the combined list: the hook's \<^verbatim>\<open>TranscriptionSegment\<close>, with the
  copied SDK fields when it came from the SDK.
\<close>

record 'x TranscriptionSegment =
  seg_id :: string
  seg_text :: string
  seg_role :: role
  firstReceivedTime :: int
  seg_rest :: "'x option"

definition with_role :: "role \<Rightarrow> 'x ReceivedSegment \<Rightarrow> 'x TranscriptionSegment" where
  "with_role r val =
     \<lparr> seg_id = rs_id val, seg_text = rs_text val, seg_role = r,
       firstReceivedTime = rs_firstReceivedTime val, seg_rest = Some (rs_rest val) \<rparr>"

text \<open>
  \<^verbatim>\<open>Array.prototype.sort(compare)\<close>: a stable sort by the comparator, here by
  insertion; \<open>x\<close> goes before the first \<open>y\<close> with \<open>compare x y \<le> 0\<close>.
\<close>

fun insort_cmp :: "('a \<Rightarrow> 'a \<Rightarrow> int) \<Rightarrow> 'a \<Rightarrow> 'a list \<Rightarrow> 'a list" where
  "insort_cmp cmp x [] = [x]"
| "insort_cmp cmp x (y # ys) =
     (if cmp x y \<le> 0 then x # y # ys else y # insort_cmp cmp x ys)"

definition sort_cmp :: "('a \<Rightarrow> 'a \<Rightarrow> int) \<Rightarrow> 'a list \<Rightarrow> 'a list" where
  "sort_cmp cmp xs = foldr (insort_cmp cmp) xs []"

text \<open>The hook's three inputs: two lists from the SDK and its own \<^verbatim>\<open>manualMessages\<close>.\<close>

record 'x hook_state =
  agentTranscriptions :: "'x ReceivedSegment list"
  userTranscriptions :: "'x ReceivedSegment list"
  manualMessages :: "'x TranscriptionSegment list"

definition hook_init :: "'x ReceivedSegment list \<Rightarrow> 'x ReceivedSegment list \<Rightarrow> 'x hook_state" where
  "hook_init agent usr = \<lparr> agentTranscriptions = agent, userTranscriptions = usr, manualMessages = [] \<rparr>"

text \<open>
  \<^verbatim>\<open>addManualMessage(text, role = "user")\<close>. The clock is read twice: \<open>now_id\<close> is the
  \<^verbatim>\<open>Date.now()\<close> inside the identifier, \<open>now\<close> the later \<^verbatim>\<open>Date.now()\<close> that becomes
  \<^verbatim>\<open>firstReceivedTime\<close>; \<open>rnd\<close> is \<^verbatim>\<open>Math.random().toString(36).substring(2, 9)\<close>.
\<close>

definition addManualMessage ::
  "'x hook_state \<Rightarrow> string \<Rightarrow> role option \<Rightarrow> int \<Rightarrow> string \<Rightarrow> int \<Rightarrow> 'x hook_state" where
  "addManualMessage h txt r now_id rnd now =
     (let newMessage =
            \<lparr> seg_id = ''manual-'' @ dec_of_int now_id @ ''-'' @ rnd, seg_text = txt,
              seg_role = (case r of None \<Rightarrow> User | Some r' \<Rightarrow> r'),
              firstReceivedTime = now, seg_rest = None \<rparr>
      in h\<lparr>manualMessages := manualMessages h @ [newMessage]\<rparr>)"

definition combinedTranscriptions :: "'x hook_state \<Rightarrow> 'x TranscriptionSegment list" where
  "combinedTranscriptions h =
     sort_cmp (\<lambda>a b. firstReceivedTime a - firstReceivedTime b)
       (map (with_role Assistant) (agentTranscriptions h)
        @ map (with_role User) (userTranscriptions h)
        @ manualMessages h)"

datatype 'x hook_event =
    AddManualMessage string "role option" int string int
  | AgentTranscriptUpdate "'x ReceivedSegment list"
  | UserTranscriptUpdate "'x ReceivedSegment list"

fun hook_step :: "'x hook_state \<Rightarrow> 'x hook_event \<Rightarrow> 'x hook_state" where
  "hook_step h (AddManualMessage txt r now_id rnd now) = addManualMessage h txt r now_id rnd now"
| "hook_step h (AgentTranscriptUpdate xs) = h\<lparr>agentTranscriptions := xs\<rparr>"
| "hook_step h (UserTranscriptUpdate xs) = h\<lparr>userTranscriptions := xs\<rparr>"

definition hook_run :: "'x hook_state \<Rightarrow> 'x hook_event list \<Rightarrow> 'x hook_state" where
  "hook_run h evs = foldl hook_step h evs"

section \<open>The proxy route (app/api/intake/[...path]/route.ts)\<close>

text \<open>
  A value as \<^verbatim>\<open>JSON.parse\<close> returns it: the route only ever holds such values, which
  have no \<^verbatim>\<open>undefined\<close> in them. Numbers are compared by value, strings as they are,
  objects by their properties.
\<close>

datatype json =
    JsonNull
  | JsonBool bool
  | JsonNum jsnum
  | JsonStr string
  | JsonArr "json list"
  | JsonObj "(string \<times> json) list"

text \<open>
  \<^verbatim>\<open>JSON.stringify\<close> on such a value, given as the value its output text denotes:
  an infinity is written \<^verbatim>\<open>null\<close>; everything else is written as it is.
\<close>

fun JSON_stringify :: "json \<Rightarrow> json" where
  "JSON_stringify (JsonNum n) =
     (case n of Finite r \<Rightarrow> JsonNum (Finite r) | PlusInfinity \<Rightarrow> JsonNull | MinusInfinity \<Rightarrow> JsonNull)"
| "JSON_stringify (JsonArr vs) = JsonArr (map JSON_stringify vs)"
| "JSON_stringify (JsonObj ps) = JsonObj (map (\<lambda>(k, v). (k, JSON_stringify v)) ps)"
| "JSON_stringify v = v"

text \<open>A value with no number out of range anywhere in it.\<close>

fun in_range :: "json \<Rightarrow> bool" where
  "in_range (JsonNum n) = (case n of Finite r \<Rightarrow> True | PlusInfinity \<Rightarrow> False | MinusInfinity \<Rightarrow> False)"
| "in_range (JsonArr vs) = list_all in_range vs"
| "in_range (JsonObj ps) = list_all (\<lambda>(k, v). in_range v) ps"
| "in_range v = True"

text \<open>
  The route's \<^verbatim>\<open>fetch(url, init)\<close> to the backend: the request it issues, with the body
  given as the value the body text denotes, and what the fetch and
  \<^verbatim>\<open>response.json()\<close> can do (reject; or resolve, with any status, to a body that
  parses or does not).
\<close>

record backend_request =
  fetch_url :: string
  fetch_method :: http_method
  fetch_headers :: "(string \<times> string) list"
  fetch_body :: "json option"

datatype parsed_body = BodyNotJson | BodyJson json

datatype backend_outcome = FetchRejected | FetchResolved nat parsed_body

fun response_json :: "backend_outcome \<Rightarrow> exn + json" where
  "response_json FetchRejected = Inl NetworkError"
| "response_json (FetchResolved st BodyNotJson) = Inl SyntaxError"
| "response_json (FetchResolved st (BodyJson data)) = Inr data"

definition INTAKE_API_BASE_URL :: "string option \<Rightarrow> string" where
  "INTAKE_API_BASE_URL env =
     (case env of
        None \<Rightarrow> ''http://localhost:8000/api/intake''
      | Some u \<Rightarrow> if u \<noteq> [] then u else ''http://localhost:8000/api/intake'')"

fun join :: "string list \<Rightarrow> string \<Rightarrow> string" where
  "join [] sep = []"
| "join [x] sep = x"
| "join (x # y # ys) sep = x @ sep @ join (y # ys) sep"

text \<open>
  What \<^verbatim>\<open>NextResponse.json(data, init)\<close> sends: a status (200 by default) and the text
  \<^verbatim>\<open>JSON.stringify(data)\<close>; \<open>body\<close> is the value the browser parses from that text.
\<close>

record proxy_response =
  status :: nat
  body :: json

definition NextResponse_json :: "json \<Rightarrow> nat option \<Rightarrow> proxy_response" where
  "NextResponse_json data st =
     \<lparr> status = (case st of None \<Rightarrow> 200 | Some n \<Rightarrow> n), body = JSON_stringify data \<rparr>"

definition error_response :: proxy_response where
  "error_response =
     NextResponse_json (JsonObj [(''error'', JsonStr ''Failed to communicate with intake agent'')])
       (Some 500)"

definition GET_request :: "string option \<Rightarrow> string list \<Rightarrow> backend_request" where
  "GET_request env path =
     (let targetPath = join path ''/'';
          url = INTAKE_API_BASE_URL env @ ''/'' @ targetPath
      in \<lparr> fetch_url = url, fetch_method = GET_method, fetch_headers = json_headers,
           fetch_body = None \<rparr>)"

definition GET ::
  "string option \<Rightarrow> (backend_request \<Rightarrow> backend_outcome) \<Rightarrow> string list \<Rightarrow> proxy_response" where
  "GET env fetch path =
     (case response_json (fetch (GET_request env path)) of
        Inl e \<Rightarrow> error_response
      | Inr data \<Rightarrow> NextResponse_json data None)"

definition POST_request :: "string option \<Rightarrow> json \<Rightarrow> string list \<Rightarrow> backend_request" where
  "POST_request env b path =
     (let targetPath = join path ''/'';
          url = INTAKE_API_BASE_URL env @ ''/'' @ targetPath
      in \<lparr> fetch_url = url, fetch_method = POST_method, fetch_headers = json_headers,
           fetch_body = Some (JSON_stringify b) \<rparr>)"

text \<open>
  \<open>incoming\<close> is the browser's request body as \<^verbatim>\<open>request.json()\<close> finds it: when it is
  not JSON the handler throws before any fetch.
\<close>

definition POST ::
  "string option \<Rightarrow> (backend_request \<Rightarrow> backend_outcome) \<Rightarrow> parsed_body \<Rightarrow> string list
     \<Rightarrow> proxy_response" where
  "POST env fetch incoming path =
     (case incoming of
        BodyNotJson \<Rightarrow> error_response
      | BodyJson b \<Rightarrow>
          (case response_json (fetch (POST_request env b path)) of
             Inl e \<Rightarrow> error_response
           | Inr data \<Rightarrow> NextResponse_json data None))"

section \<open>Example inputs\<close>

definition example_connection :: jsval where
  "example_connection = JObj [(''url'', JStr ''wss://media.example''), (''token'', JStr ''tok'')]"

definition voice_backend :: "request \<Rightarrow> fetch_outcome" where
  "voice_backend req = Resolved 200 (Json (JObj [(''connection_details'', example_connection)]))"

text \<open>A backend that cannot be reached, for the store and for the proxy route.\<close>

definition backend_down :: "request \<Rightarrow> fetch_outcome" where
  "backend_down req = Rejected"

definition proxy_backend_down :: "backend_request \<Rightarrow> backend_outcome" where
  "proxy_backend_down req = FetchRejected"

text \<open>What the browser gets from the proxy route when the route's own fetch has failed.\<close>

definition error_reply_backend :: "request \<Rightarrow> fetch_outcome" where
  "error_reply_backend req =
     Resolved 500 (Json (JObj [(''error'', JStr ''Failed to communicate with intake agent'')]))"

text \<open>A backend that answers with error statuses and JSON bodies.\<close>

definition error_status_backend :: "backend_request \<Rightarrow> backend_outcome" where
  "error_status_backend req =
     (case fetch_method req of
        GET_method \<Rightarrow> FetchResolved 404 (BodyJson (JsonObj [(''detail'', JsonStr ''Not Found'')]))
      | POST_method \<Rightarrow>
          FetchResolved 500 (BodyJson (JsonObj [(''detail'', JsonStr ''Internal Server Error'')])))"

text \<open>
  Backends whose reply holds a number out of range: the body texts
  \<^verbatim>\<open>{"price": 1e999}\<close> with status 200 and \<^verbatim>\<open>[-1e999]\<close> with status 404.
\<close>

definition overflow_backend :: "backend_request \<Rightarrow> backend_outcome" where
  "overflow_backend req =
     FetchResolved 200 (BodyJson (JsonObj [(''price'', JsonNum PlusInfinity)]))"

definition not_found_overflow_backend :: "backend_request \<Rightarrow> backend_outcome" where
  "not_found_overflow_backend req =
     FetchResolved 404 (BodyJson (JsonArr [JsonNum MinusInfinity]))"

definition listing_backend :: "backend_request \<Rightarrow> backend_outcome" where
  "listing_backend req =
     (if fetch_url req = ''http://backend:9000/base/foo/bar''
      then FetchResolved 200 (BodyJson (JsonObj [(''price'', JsonNum (Finite 5)), (''tags'', JsonArr [JsonStr ''a''])]))
      else FetchRejected)"

text \<open>A session in voice mode that has collected an email address.\<close>

definition voice_session :: AgentState where
  "voice_session =
     (initial_state 0)\<lparr> mode := VoiceMode, clientData := JObj [(''email'', JStr ''a@b.example'')],
                        connectionDetails := example_connection \<rparr>"

definition text_switch_reply :: jsval where
  "text_switch_reply =
     JObj [(''message'', JStr ''Back to text.''),
           (''state'', JObj [(''client_data'', JObj [(''budget'', JStr ''500k'')]),
                            (''current_stage'', JStr ''budget'')])]"

definition budget_backend :: "request \<Rightarrow> fetch_outcome" where
  "budget_backend req =
     Resolved 200 (Json (JObj [(''response'', JStr ''Sure, what is your budget?''),
                               (''state'', JObj [(''current_stage'', JStr ''budget'')])]))"

definition agent_segment :: "unit ReceivedSegment" where
  "agent_segment = \<lparr>rs_id = ''SG_1'', rs_text = ''Hello'', rs_firstReceivedTime = 5, rs_rest = ()\<rparr>"

section \<open>Reading properties\<close>

lemma get_prop_cases:
  obtains "d = JUndefined \<or> d = JNull" "\<And>k. get_prop d k = Inl TypeError"
  | "d \<noteq> JUndefined" "d \<noteq> JNull" "\<And>k. get_prop d k = Inr (read_prop d k)"
  by (cases d) (auto simp: read_prop_def)

lemma get_prop_of_truthy: "truthy d \<Longrightarrow> get_prop d k = Inr (read_prop d k)"
  by (cases d) (auto simp: read_prop_def)

section \<open>Decimal numerals are injective\<close>

declare dec_of_nat.simps [simp del]

lemma val_of_dec_snoc: "val_of_dec (ds @ [c]) = 10 * val_of_dec ds + (of_char c - 48)"
  by (simp add: val_of_dec_def)

lemma val_of_dec_of_nat: "val_of_dec (dec_of_nat n) = n"
proof (induction n rule: dec_of_nat.induct)
  case (1 n)
  show ?case
  proof (cases "n < 10")
    case True
    then have "dec_of_nat n = [char_of (48 + n)]"
      by (subst dec_of_nat.simps) simp
    with True show ?thesis
      by (simp add: val_of_dec_def)
  next
    case False
    then have eq: "dec_of_nat n = dec_of_nat (n div 10) @ [char_of (48 + n mod 10)]"
      by (subst dec_of_nat.simps) simp
    have "n mod 10 < 10" by simp
    then have "48 + n mod 10 < 256" by linarith
    then have "(48 + n mod 10) mod 256 = 48 + n mod 10"
      by (rule mod_less)
    with False 1 show ?thesis
      by (simp add: eq val_of_dec_snoc)
  qed
qed

lemma dec_of_nat_inj: "dec_of_nat m = dec_of_nat n \<Longrightarrow> m = n"
  by (metis val_of_dec_of_nat)

lemma digit_char_not_minus:
  assumes "d < 10"
  shows "char_of (48 + d :: nat) \<noteq> CHR ''-''"
proof
  assume "char_of (48 + d) = CHR ''-''"
  then have "of_char (char_of (48 + d) :: char) = (of_char (CHR ''-'') :: nat)"
    by (simp only:)
  with assms show False by simp
qed

lemma dec_of_nat_no_minus: "CHR ''-'' \<notin> set (dec_of_nat n)"
proof (induction n rule: dec_of_nat.induct)
  case (1 n)
  show ?case
  proof (cases "n < 10")
    case True
    then have "dec_of_nat n = [char_of (48 + n)]"
      by (subst dec_of_nat.simps) simp
    with digit_char_not_minus [OF True] show ?thesis by auto
  next
    case False
    then have eq: "dec_of_nat n = dec_of_nat (n div 10) @ [char_of (48 + n mod 10)]"
      by (subst dec_of_nat.simps) simp
    have "char_of (48 + n mod 10) \<noteq> CHR ''-''"
      by (rule digit_char_not_minus) simp
    with False 1 show ?thesis
      by (auto simp: eq)
  qed
qed

lemma dec_of_int_inj:
  assumes h: "dec_of_int i = dec_of_int j"
  shows "i = j"
proof -
  have neg_pos: False if "a < 0" "\<not> b < 0" "dec_of_int a = dec_of_int b" for a b
  proof -
    from that have "CHR ''-'' # dec_of_nat (nat (- a)) = dec_of_nat (nat b)"
      by (simp add: dec_of_int_def)
    then have "CHR ''-'' \<in> set (dec_of_nat (nat b))"
      by (metis list.set_intros(1))
    then show False by (simp add: dec_of_nat_no_minus)
  qed
  show ?thesis
  proof (cases "i < 0")
    case True
    show ?thesis
    proof (cases "j < 0")
      case jn: True
      with True h have "nat (- i) = nat (- j)"
        by (auto simp: dec_of_int_def dest: dec_of_nat_inj)
      with True jn show ?thesis by simp
    next
      case False
      with True h neg_pos show ?thesis by blast
    qed
  next
    case False
    show ?thesis
    proof (cases "j < 0")
      case True
      with False h neg_pos [of j i] show ?thesis by simp
    next
      case jp: False
      with False h have "nat i = nat j"
        by (auto simp: dec_of_int_def dest: dec_of_nat_inj)
      with False jp show ?thesis by simp
    qed
  qed
qed

lemma session_id_at_inj: "session_id_at t = session_id_at u \<longleftrightarrow> t = u"
  by (auto simp: session_id_at_def dest: dec_of_int_inj)

section \<open>Mode switching\<close>

lemma switchMode_begin_eq:
  "switchMode_begin s newMode =
     (s\<lparr>isTransitioning := True\<rparr>, switchMode_request (s\<lparr>isTransitioning := True\<rparr>) newMode)"
  by (simp add: switchMode_begin_def Let_def)

text \<open>
  Claim C10. \<^verbatim>\<open>switchMode\<close> has no reentrancy guard: in every state, whatever
  \<^verbatim>\<open>isTransitioning\<close> holds, its synchronous part sets \<^verbatim>\<open>isTransitioning\<close> to true and
  issues the POST to \<^verbatim>\<open>/api/intake/switch-mode\<close>; a call made while the flag is already
  true does exactly what a call made while it is false does. What keeps a second call
  away is the caller: once a switch has begun, the \<^verbatim>\<open>ModeToggle\<close> button is disabled.
\<close>

theorem switchMode_no_reentrancy_guard:
  "fst (switchMode_begin s newMode) = s\<lparr>isTransitioning := True\<rparr>
   \<and> snd (switchMode_begin s newMode) =
       \<lparr> req_url = ''/api/intake/switch-mode'', req_method = POST_method,
         req_headers = [(''Content-Type'', ''application/json'')],
         req_body = Some (JObj [(''session_id'', JStr (sessionId s)),
                                (''current_mode'', mode_str (mode s)),
                                (''new_mode'', mode_str newMode),
                                (''agent_state'', agent_state_snapshot s)]) \<rparr>
   \<and> switchMode_begin (s\<lparr>isTransitioning := True\<rparr>) newMode
       = switchMode_begin (s\<lparr>isTransitioning := False\<rparr>) newMode
   \<and> ModeToggle_disabled (fst (switchMode_begin s newMode))"
  by (simp add: switchMode_begin_def switchMode_request_def Let_def json_headers_def
        agent_state_snapshot_def ModeToggle_disabled_def)

text \<open>
  Claim C5. In every state, when \<^verbatim>\<open>switchMode('voice')\<close> is called and the backend
  answers with a JSON object carrying \<^verbatim>\<open>connection_details\<close>, the call ends with
  mode \<^verbatim>\<open>voice\<close>, \<^verbatim>\<open>isTransitioning\<close> false and \<^verbatim>\<open>connectionDetails\<close> equal to the
  details returned, every other field as it was. The second conjunct says the same of
  the part after the await alone, on whatever state \<open>s'\<close> the store then holds.
\<close>

theorem switchMode_voice_success:
  assumes "fetch (snd (switchMode_begin s VoiceMode)) = Resolved st (Json (JObj ps))"
    and "map_of ps ''connection_details'' = Some cd"
  shows "switchMode fetch s VoiceMode now
           = s\<lparr>mode := VoiceMode, isTransitioning := False, connectionDetails := cd\<rparr>
         \<and> switchMode_settle s' VoiceMode (Resolved st (Json (JObj ps))) now
           = s'\<lparr>mode := VoiceMode, isTransitioning := False, connectionDetails := cd\<rparr>"
  using assms
  by (simp add: switchMode_def switchMode_begin_eq switchMode_settle_def switchMode_try_def)

theorem switchMode_voice_success_witness:
  "voice_backend (snd (switchMode_begin (initial_state 0) VoiceMode))
     = Resolved 200 (Json (JObj [(''connection_details'', example_connection)]))
   \<and> map_of [(''connection_details'', example_connection)] ''connection_details''
     = Some example_connection
   \<and> mode (switchMode voice_backend (initial_state 0) VoiceMode 1) = VoiceMode
   \<and> isTransitioning (switchMode voice_backend (initial_state 0) VoiceMode 1) = False
   \<and> connectionDetails (switchMode voice_backend (initial_state 0) VoiceMode 1)
     = example_connection"
proof -
  have h1: "voice_backend (snd (switchMode_begin (initial_state 0) VoiceMode))
              = Resolved 200 (Json (JObj [(''connection_details'', example_connection)]))"
    by (simp add: voice_backend_def)
  have h2: "map_of [(''connection_details'', example_connection)] ''connection_details''
              = Some example_connection"
    by simp
  from switchMode_voice_success
         [where fetch = voice_backend and s = "initial_state 0" and now = 1, OF h1 h2] h1 h2
  show ?thesis by simp
qed

text \<open>
  Claim C1, as the code has it. In every state and for every target mode, when the
  backend call throws, that is, the fetch rejects or the response body is not JSON,
  \<^verbatim>\<open>switchMode\<close> ends in the state it was called in with \<^verbatim>\<open>isTransitioning\<close> false:
  mode, connection details, history, intake data and stage are untouched. The second
  conjunct says the same of the part after the await, on whatever state \<open>s'\<close> the store
  then holds.
\<close>

theorem switchMode_failure_aborts:
  assumes "await_json (fetch (snd (switchMode_begin s newMode))) = Inl e"
  shows "switchMode fetch s newMode now = s\<lparr>isTransitioning := False\<rparr>
         \<and> switchMode_settle s' newMode (fetch (snd (switchMode_begin s newMode))) now
             = s'\<lparr>isTransitioning := False\<rparr>"
  using assms
  by (simp add: switchMode_def switchMode_begin_eq switchMode_settle_def switchMode_try_def)

theorem switchMode_failure_aborts_witness:
  "await_json (backend_down (snd (switchMode_begin voice_session TextMode))) = Inl NetworkError
   \<and> switchMode backend_down voice_session TextMode 1 = voice_session\<lparr>isTransitioning := False\<rparr>
   \<and> mode (switchMode backend_down voice_session TextMode 1) = VoiceMode
   \<and> connectionDetails (switchMode backend_down voice_session TextMode 1) = example_connection"
proof -
  have h: "await_json (backend_down (snd (switchMode_begin voice_session TextMode)))
             = Inl NetworkError"
    by (simp add: backend_down_def)
  from switchMode_failure_aborts
         [where fetch = backend_down and s = voice_session and newMode = TextMode and now = 1, OF h] h
  show ?thesis by (simp add: voice_session_def)
qed

text \<open>
  Claim C1 as stated counts an error-shaped response as a failure, and there it does not
  hold. The store's fetch goes to the proxy route; with the backend unreachable the route
  answers status 500 with its JSON error body (\<open>POST_backend_down\<close> below); the
  store's fetch resolves, the body parses, and \<^verbatim>\<open>switchMode('voice')\<close> called in text
  mode ends in voice mode with \<^verbatim>\<open>connectionDetails\<close> undefined.
\<close>

theorem switchMode_error_response_counterexample:
  "error_reply_backend (snd (switchMode_begin (initial_state 0) VoiceMode))
     = Resolved 500 (Json (JObj [(''error'', JStr ''Failed to communicate with intake agent'')]))
   \<and> mode (initial_state 0) = TextMode
   \<and> mode (switchMode error_reply_backend (initial_state 0) VoiceMode 1) = VoiceMode
   \<and> connectionDetails (initial_state 0) = JNull
   \<and> connectionDetails (switchMode error_reply_backend (initial_state 0) VoiceMode 1)
       = JUndefined"
  by (simp add: error_reply_backend_def switchMode_begin_eq switchMode_def
        switchMode_settle_def switchMode_try_def initial_state_def)

lemma POST_backend_down:
  "POST env proxy_backend_down incoming path
     = \<lparr>status = 500,
        body = JsonObj [(''error'', JsonStr ''Failed to communicate with intake agent'')]\<rparr>"
  by (simp add: POST_def proxy_backend_down_def error_response_def NextResponse_json_def
        split: parsed_body.splits)

text \<open>
  Claim C6, as the code has it. In every state, when \<^verbatim>\<open>switchMode('text')\<close> is called
  and the backend answers with a JSON object, the call ends with mode \<^verbatim>\<open>text\<close>,
  \<^verbatim>\<open>isTransitioning\<close> false and \<^verbatim>\<open>connectionDetails\<close> null; a truthy \<^verbatim>\<open>message\<close> in
  the response is appended to the history as an assistant message; and when the response
  carries a truthy \<^verbatim>\<open>state\<close>, the intake data is replaced by \<^verbatim>\<open>state.client_data\<close>
  (the empty object when that is missing or falsy) and the stage by
  \<^verbatim>\<open>state.current_stage\<close> (\<^verbatim>\<open>'greeting'\<close> when that is missing or falsy); without a
  \<^verbatim>\<open>state\<close> both stay as they were.
\<close>

theorem switchMode_text_success:
  assumes "out = Resolved st (Json (JObj ps))"
  shows "mode (switchMode_settle s TextMode out now) = TextMode
    \<and> isTransitioning (switchMode_settle s TextMode out now) = False
    \<and> connectionDetails (switchMode_settle s TextMode out now) = JNull
    \<and> conversationHistory (switchMode_settle s TextMode out now)
        = conversationHistory s @
          (if truthy (read_prop (JObj ps) ''message'')
           then [\<lparr>role = Assistant, content = read_prop (JObj ps) ''message'', timestamp = now\<rparr>]
           else [])
    \<and> clientData (switchMode_settle s TextMode out now)
        = (if truthy (read_prop (JObj ps) ''state'')
           then js_or (read_prop (read_prop (JObj ps) ''state'') ''client_data'') (JObj [])
           else clientData s)
    \<and> currentStage (switchMode_settle s TextMode out now)
        = (if truthy (read_prop (JObj ps) ''state'')
           then js_or (read_prop (read_prop (JObj ps) ''state'') ''current_stage'') (JStr ''greeting'')
           else currentStage s)
    \<and> sessionId (switchMode_settle s TextMode out now) = sessionId s"
proof -
  have m: "get_prop (JObj ps) ''message'' = Inr (read_prop (JObj ps) ''message'')"
    and t: "get_prop (JObj ps) ''state'' = Inr (read_prop (JObj ps) ''state'')"
    by (simp_all add: read_prop_def)
  show ?thesis
  proof (cases "truthy (read_prop (JObj ps) ''state'')")
    case True
    with assms m t show ?thesis
      by (simp add: switchMode_settle_def switchMode_try_def Let_def get_prop_of_truthy
            addMessage_def del: get_prop.simps)
  next
    case False
    with assms m t show ?thesis
      by (simp add: switchMode_settle_def switchMode_try_def Let_def addMessage_def
            del: get_prop.simps)
  qed
qed

theorem switchMode_text_success_witness:
  "Resolved 200 (Json text_switch_reply)
     = Resolved 200 (Json (JObj [(''message'', JStr ''Back to text.''),
           (''state'', JObj [(''client_data'', JObj [(''budget'', JStr ''500k'')]),
                            (''current_stage'', JStr ''budget'')])]))
   \<and> mode (switchMode_settle voice_session TextMode (Resolved 200 (Json text_switch_reply)) 1)
       = TextMode
   \<and> connectionDetails (switchMode_settle voice_session TextMode (Resolved 200 (Json text_switch_reply)) 1)
       = JNull
   \<and> conversationHistory (switchMode_settle voice_session TextMode (Resolved 200 (Json text_switch_reply)) 1)
       = [\<lparr>role = Assistant, content = JStr ''Back to text.'', timestamp = 1\<rparr>]
   \<and> clientData (switchMode_settle voice_session TextMode (Resolved 200 (Json text_switch_reply)) 1)
       = JObj [(''budget'', JStr ''500k'')]
   \<and> currentStage (switchMode_settle voice_session TextMode (Resolved 200 (Json text_switch_reply)) 1)
       = JStr ''budget''"
proof -
  have h: "Resolved 200 (Json text_switch_reply)
     = Resolved 200 (Json (JObj [(''message'', JStr ''Back to text.''),
           (''state'', JObj [(''client_data'', JObj [(''budget'', JStr ''500k'')]),
                            (''current_stage'', JStr ''budget'')])]))"
    by (simp add: text_switch_reply_def)
  from switchMode_text_success [OF h, of voice_session 1] h
  show ?thesis
    by (simp add: read_prop_def js_or_def voice_session_def initial_state_def)
qed

text \<open>
  Claim C6 as stated has the returned intake data merged into what the session holds,
  and there it does not hold. A session holding an email address switches to text; the
  response's state carries a budget only; afterwards the intake data is the budget alone,
  where the shallow merge of \<^verbatim>\<open>updateClientData\<close> would have kept the email address.
\<close>

theorem switchMode_text_replaces_counterexample:
  "clientData voice_session = JObj [(''email'', JStr ''a@b.example'')]
   \<and> clientData (switchMode_settle voice_session TextMode (Resolved 200 (Json text_switch_reply)) 1)
       = JObj [(''budget'', JStr ''500k'')]
   \<and> clientData (updateClientData voice_session (JObj [(''budget'', JStr ''500k'')]))
       = JObj [(''email'', JStr ''a@b.example''), (''budget'', JStr ''500k'')]"
  by (simp add: voice_session_def text_switch_reply_def switchMode_settle_def switchMode_try_def
        Let_def addMessage_def js_or_def updateClientData_def spread2_def AList.merge_def
        AList.update.simps)

section \<open>Sending a text message\<close>

lemma sendTextMessage_try_cases:
  "(\<exists>e. sendTextMessage_try s out now = (s, Some e)
        \<and> (await_json out = Inl e
            \<or> (\<exists>data. await_json out = Inr data \<and> get_prop data ''response'' = Inl e)))
   \<or> (\<exists>data r s'. await_json out = Inr data \<and> get_prop data ''response'' = Inr r
        \<and> sendTextMessage_try s out now = (s', None)
        \<and> conversationHistory s'
            = conversationHistory s @ [\<lparr>role = Assistant, content = r, timestamp = now\<rparr>])"
proof (cases "await_json out")
  case (Inl e)
  then show ?thesis by (simp add: sendTextMessage_try_def)
next
  case (Inr data)
  show ?thesis
  proof (cases data rule: get_prop_cases)
    case 1
    with Inr show ?thesis by (simp add: sendTextMessage_try_def)
  next
    case 2
    note d = 2(3)
    show ?thesis
    proof (cases "truthy (read_prop data ''state'')")
      case True
      with Inr d show ?thesis
        by (simp add: sendTextMessage_try_def Let_def get_prop_of_truthy addMessage_def
              updateClientData_def)
    next
      case False
      with Inr d show ?thesis
        by (simp add: sendTextMessage_try_def Let_def addMessage_def updateClientData_def)
    qed
  qed
qed

lemma sendTextMessage_settle_history:
  "\<exists>s'. sendTextMessage_settle s out now = Inr s'
     \<and> conversationHistory s' = conversationHistory s @
        [\<lparr>role = Assistant,
          content = (case await_json out of
                       Inl e \<Rightarrow> JStr error_message
                     | Inr data \<Rightarrow> (case get_prop data ''response'' of
                                      Inl e \<Rightarrow> JStr error_message
                                    | Inr r \<Rightarrow> r)),
          timestamp = now\<rparr>]"
  using sendTextMessage_try_cases [of s out now]
  by (auto simp: sendTextMessage_settle_def addMessage_def)

text \<open>
  Claim C2, as the code has it. For every input string, in every state and whatever the
  backend does: the synchronous part of \<^verbatim>\<open>sendTextMessage\<close> appends exactly one
  \<^verbatim>\<open>user\<close> message holding the input, before the request is built; the settled call
  returns normally (no exception reaches the caller) and has appended exactly one
  \<^verbatim>\<open>assistant\<close> message after it. The content of that message is the \<^verbatim>\<open>response\<close>
  field of the reply whenever the fetch resolved with a JSON body other than
  \<^verbatim>\<open>null\<close>, whatever its status (\<^verbatim>\<open>undefined\<close> when the reply has no such field), and
  the fixed apology when the call threw (the fetch rejected, the body was not JSON, or the
  body was \<^verbatim>\<open>null\<close>). The fourth conjunct says the same of the part after the await alone,
  on whatever state \<open>s1\<close> the store then holds.
\<close>

theorem sendTextMessage_one_user_one_assistant:
  "conversationHistory (fst (sendTextMessage_begin s message now))
     = conversationHistory s @ [\<lparr>role = User, content = JStr message, timestamp = now\<rparr>]
   \<and> snd (sendTextMessage_begin s message now)
     = sendTextMessage_request (fst (sendTextMessage_begin s message now)) message
   \<and> (\<exists>s'. sendTextMessage fetch s message now now' = Inr s'
         \<and> conversationHistory s' = conversationHistory s @
            [\<lparr>role = User, content = JStr message, timestamp = now\<rparr>,
             \<lparr>role = Assistant,
               content = (case await_json (fetch (snd (sendTextMessage_begin s message now))) of
                            Inl e \<Rightarrow> JStr error_message
                          | Inr data \<Rightarrow> (case get_prop data ''response'' of
                                           Inl e \<Rightarrow> JStr error_message
                                         | Inr r \<Rightarrow> r)),
               timestamp = now'\<rparr>])
   \<and> (\<exists>s'. sendTextMessage_settle s1 out now' = Inr s'
         \<and> conversationHistory s' = conversationHistory s1 @
            [\<lparr>role = Assistant,
               content = (case await_json out of
                            Inl e \<Rightarrow> JStr error_message
                          | Inr data \<Rightarrow> (case get_prop data ''response'' of
                                           Inl e \<Rightarrow> JStr error_message
                                         | Inr r \<Rightarrow> r)),
               timestamp = now'\<rparr>])
   \<and> error_message
     = ''Sorry, I encountered an error processing your message. Please try again.''"
proof -
  let ?s1 = "fst (sendTextMessage_begin s message now)"
  let ?req = "snd (sendTextMessage_begin s message now)"
  have b: "conversationHistory ?s1
             = conversationHistory s @ [\<lparr>role = User, content = JStr message, timestamp = now\<rparr>]"
    by (simp add: sendTextMessage_begin_def Let_def addMessage_def)
  have r: "?req = sendTextMessage_request ?s1 message"
    by (simp add: sendTextMessage_begin_def Let_def)
  have c: "sendTextMessage fetch s message now now' = sendTextMessage_settle ?s1 (fetch ?req) now'"
    by (simp add: sendTextMessage_def split: prod.splits)
  from sendTextMessage_settle_history [of ?s1 "fetch ?req" now'] b c
    sendTextMessage_settle_history [of s1 out now']
  have "(\<exists>s'. sendTextMessage fetch s message now now' = Inr s'
         \<and> conversationHistory s' = conversationHistory s @
            [\<lparr>role = User, content = JStr message, timestamp = now\<rparr>,
             \<lparr>role = Assistant,
               content = (case await_json (fetch ?req) of
                            Inl e \<Rightarrow> JStr error_message
                          | Inr data \<Rightarrow> (case get_prop data ''response'' of
                                           Inl e \<Rightarrow> JStr error_message
                                         | Inr r \<Rightarrow> r)),
               timestamp = now'\<rparr>])"
    by auto
  with b r sendTextMessage_settle_history [of s1 out now'] show ?thesis
    by (simp add: error_message_def)
qed

text \<open>
  Claim C2 as stated has the fixed apology appended on failure, and for a failure the
  backend reports in its reply it does not hold. With the backend unreachable the proxy
  route answers status 500 with its JSON error body; the store's fetch resolves, the body
  parses, and the assistant message appended has \<^verbatim>\<open>undefined\<close> as its content: neither
  a response text nor the apology.
\<close>

theorem sendTextMessage_error_response_counterexample:
  "error_reply_backend (snd (sendTextMessage_begin (initial_state 0) ''hi'' 1))
     = Resolved 500 (Json (JObj [(''error'', JStr ''Failed to communicate with intake agent'')]))
   \<and> sendTextMessage error_reply_backend (initial_state 0) ''hi'' 1 2
     = Inr ((initial_state 0)
         \<lparr> conversationHistory :=
             [\<lparr>role = User, content = JStr ''hi'', timestamp = 1\<rparr>,
              \<lparr>role = Assistant, content = JUndefined, timestamp = 2\<rparr>] \<rparr>)
   \<and> JUndefined \<noteq> JStr error_message"
  by (simp add: sendTextMessage_def sendTextMessage_begin_def sendTextMessage_settle_def
        sendTextMessage_try_def error_reply_backend_def addMessage_def Let_def initial_state_def)

text \<open>Two runs: the backend answers, and the backend cannot be reached.\<close>

lemma sendTextMessage_budget_example:
  "sendTextMessage budget_backend (initial_state 0) ''What is your budget range?'' 1 2
     = Inr ((initial_state 0)
         \<lparr> conversationHistory :=
             [\<lparr>role = User, content = JStr ''What is your budget range?'', timestamp = 1\<rparr>,
              \<lparr>role = Assistant, content = JStr ''Sure, what is your budget?'', timestamp = 2\<rparr>],
           currentStage := JStr ''budget'' \<rparr>)"
  by (simp add: sendTextMessage_def sendTextMessage_begin_def sendTextMessage_settle_def
        sendTextMessage_try_def budget_backend_def addMessage_def Let_def initial_state_def)

lemma sendTextMessage_down_example:
  "sendTextMessage backend_down (initial_state 0) ''hi'' 1 2
     = Inr ((initial_state 0)
         \<lparr> conversationHistory :=
             [\<lparr>role = User, content = JStr ''hi'', timestamp = 1\<rparr>,
              \<lparr>role = Assistant, content = JStr error_message, timestamp = 2\<rparr>] \<rparr>)"
  by (simp add: sendTextMessage_def sendTextMessage_begin_def sendTextMessage_settle_def
        sendTextMessage_try_def backend_down_def addMessage_def Let_def initial_state_def)

section \<open>The conversation history only grows\<close>

lemma switchMode_settle_history:
  "prefix (conversationHistory s) (conversationHistory (switchMode_settle s newMode out now))"
proof (cases "await_json out")
  case (Inl e)
  then show ?thesis by (simp add: switchMode_settle_def switchMode_try_def)
next
  case (Inr data)
  show ?thesis
  proof (cases data rule: get_prop_cases)
    case 1
    with Inr show ?thesis by (simp add: switchMode_settle_def switchMode_try_def)
  next
    case 2
    note d = 2(3)
    show ?thesis
    proof (cases "truthy (read_prop data ''state'')")
      case True
      with Inr d show ?thesis
        by (simp add: switchMode_settle_def switchMode_try_def Let_def get_prop_of_truthy
              addMessage_def)
    next
      case False
      with Inr d show ?thesis
        by (simp add: switchMode_settle_def switchMode_try_def Let_def addMessage_def)
    qed
  qed
qed

lemma initialize_settle_history:
  "prefix (conversationHistory s) (conversationHistory (initialize_settle s out now))"
proof (cases "await_json out")
  case (Inl e)
  then show ?thesis by (simp add: initialize_settle_def initialize_try_def addMessage_def)
next
  case (Inr data)
  show ?thesis
  proof (cases data rule: get_prop_cases)
    case 1
    with Inr show ?thesis by (simp add: initialize_settle_def initialize_try_def addMessage_def)
  next
    case 2
    note d = 2(3)
    show ?thesis
    proof (cases "truthy (read_prop data ''state'')")
      case True
      with Inr d show ?thesis
        by (simp add: initialize_settle_def initialize_try_def Let_def get_prop_of_truthy
              addMessage_def)
    next
      case False
      with Inr d show ?thesis
        by (simp add: initialize_settle_def initialize_try_def Let_def addMessage_def)
    qed
  qed
qed

lemma store_step_history:
  "prefix (conversationHistory s) (conversationHistory (store_step s ev))"
proof (cases ev)
  case (SendTextSettle out now)
  with sendTextMessage_settle_history [of s out now] show ?thesis by auto
qed (simp_all add: addMessage_def updateClientData_def sendTextMessage_begin_def Let_def
       initialize_begin_def switchMode_begin_def switchMode_settle_history
       initialize_settle_history)

lemma store_run_history:
  "prefix (conversationHistory s) (conversationHistory (store_run s evs))"
  unfolding store_run_def
proof (induction evs arbitrary: s)
  case Nil
  show ?case by simp
next
  case (Cons ev evs)
  have "prefix (conversationHistory s) (conversationHistory (store_step s ev))"
    by (rule store_step_history)
  also have "prefix \<dots> (conversationHistory (foldl store_step (store_step s ev) evs))"
    by (rule Cons.IH)
  finally show ?case by simp
qed

text \<open>
  Claim C8. Over every sequence of store operations other than \<^verbatim>\<open>reset\<close>
  (\<^verbatim>\<open>addMessage\<close>, \<^verbatim>\<open>updateClientData\<close>, and the parts of \<^verbatim>\<open>sendTextMessage\<close>,
  \<^verbatim>\<open>initialize\<close> and \<^verbatim>\<open>switchMode\<close> before and after their await, interleaved in any
  way), the conversation history is append-only: the history before a step is a prefix
  of the history after it, the history before a run is a prefix of the history after it,
  and the messages that were there are there unchanged, at the same positions.
\<close>

theorem conversationHistory_append_only:
  "prefix (conversationHistory s) (conversationHistory (store_step s ev))
   \<and> prefix (conversationHistory s) (conversationHistory (store_run s evs))
   \<and> take (length (conversationHistory s)) (conversationHistory (store_run s evs))
       = conversationHistory s"
  using store_run_history [of s evs] store_step_history [of s ev]
  by (auto simp: prefix_def)

section \<open>Reset\<close>

text \<open>
  Claim C7, as the code has it. The session identifier is \<^verbatim>\<open>session_\<close> followed by the
  clock reading in milliseconds. In every state whose identifier was made at reading
  \<open>t0\<close>, a \<^verbatim>\<open>reset()\<close> at reading \<open>now\<close> gives a different identifier exactly when
  \<open>now\<close> differs from \<open>t0\<close>; and when \<^verbatim>\<open>reset()\<close> returns, with the greeting requested
  and not yet arrived, the state is the initial one: history of length 0, mode
  \<^verbatim>\<open>text\<close>, empty intake data, null connection details.
\<close>

theorem reset_fresh_state:
  assumes "sessionId s = session_id_at t0"
  shows "(sessionId (fst (reset s now)) \<noteq> sessionId s \<longleftrightarrow> now \<noteq> t0)
         \<and> fst (reset s now) = initial_state now
         \<and> length (conversationHistory (fst (reset s now))) = 0
         \<and> mode (fst (reset s now)) = TextMode
         \<and> clientData (fst (reset s now)) = JObj []
         \<and> connectionDetails (fst (reset s now)) = JNull
         \<and> snd (reset s now) = initialize_request (initial_state now)"
  using assms
  by (simp add: reset_def initialize_begin_def initialize_request_def initial_state_def Let_def
        session_id_at_inj)

theorem reset_fresh_state_witness:
  "sessionId voice_session = session_id_at 0
   \<and> sessionId (fst (reset voice_session 5)) \<noteq> sessionId voice_session
   \<and> sessionId (fst (reset voice_session 5)) = ''session_5''
   \<and> length (conversationHistory (fst (reset voice_session 5))) = 0
   \<and> mode (fst (reset voice_session 5)) = TextMode
   \<and> clientData (fst (reset voice_session 5)) = JObj []
   \<and> connectionDetails (fst (reset voice_session 5)) = JNull"
proof -
  have h: "sessionId voice_session = session_id_at 0"
    by (simp add: voice_session_def initial_state_def)
  have d: "session_id_at 5 = ''session_5''"
    by code_simp
  note r = reset_fresh_state [OF h, of 5]
  have n: "(5::int) \<noteq> 0"
    by simp
  from r n have a: "sessionId (fst (reset voice_session 5)) \<noteq> sessionId voice_session"
    by blast
  from r have b: "fst (reset voice_session 5) = initial_state 5"
    by blast
  from d have c: "sessionId (initial_state 5) = ''session_5''"
    by (simp add: initial_state_def)
  have e: "length (conversationHistory (initial_state 5)) = 0
           \<and> mode (initial_state 5) = TextMode
           \<and> clientData (initial_state 5) = JObj []
           \<and> connectionDetails (initial_state 5) = JNull"
    by (simp add: initial_state_def)
  from h a c e show ?thesis
    unfolding b by blast
qed

text \<open>
  Claim C7 as stated has every reset give a new identifier, and there it does not hold:
  a second \<^verbatim>\<open>reset()\<close> within the same millisecond as the first gives the identifier
  the first one gave.
\<close>

theorem reset_same_clock_counterexample:
  "sessionId (fst (reset (fst (reset (initial_state 0) 5)) 5))
     = sessionId (fst (reset (initial_state 0) 5))"
  by (simp add: reset_def initialize_begin_def Let_def)

section \<open>The combined transcriptions\<close>

lemma mset_insort_cmp: "mset (insort_cmp cmp x xs) = add_mset x (mset xs)"
  by (induction xs) auto

lemma mset_sort_cmp: "mset (sort_cmp cmp xs) = mset xs"
  by (induction xs) (auto simp: sort_cmp_def mset_insort_cmp)

lemma set_insort_cmp: "set (insort_cmp cmp x xs) = insert x (set xs)"
  by (induction xs) auto

lemma sorted_insort_cmp:
  fixes f :: "'a \<Rightarrow> int"
  assumes "sorted_wrt (\<lambda>a b. f a \<le> f b) xs"
  shows "sorted_wrt (\<lambda>a b. f a \<le> f b) (insort_cmp (\<lambda>a b. f a - f b) x xs)"
  using assms
  by (induction xs) (auto simp: set_insort_cmp)

lemma sorted_sort_cmp:
  fixes f :: "'a \<Rightarrow> int"
  shows "sorted_wrt (\<lambda>a b. f a \<le> f b) (sort_cmp (\<lambda>a b. f a - f b) xs)"
proof (induction xs)
  case Nil
  show ?case by (simp add: sort_cmp_def)
next
  case (Cons x xs)
  then show ?case
    using sorted_insort_cmp [of f "sort_cmp (\<lambda>a b. f a - f b) xs" x]
    by (simp add: sort_cmp_def)
qed

lemma length_sort_cmp: "length (sort_cmp cmp xs) = length xs"
  by (metis mset_sort_cmp size_mset)

text \<open>
  Claim C3. After every sequence of \<^verbatim>\<open>addManualMessage\<close> calls interleaved with updates
  of the agent and user transcript lists, from any starting state of the hook,
  \<^verbatim>\<open>combinedTranscriptions\<close> is sorted non-decreasing by \<^verbatim>\<open>firstReceivedTime\<close>, its
  length is the sum of the lengths of the three sources, and it holds exactly the
  elements of the three sources, with their multiplicities: each agent segment with its
  identifier, text, timestamp and other fields and the role \<^verbatim>\<open>assistant\<close>, each user
  segment likewise with the role \<^verbatim>\<open>user\<close>, and the manual messages as they are; so its
  timestamps are those received. The remaining conjuncts say what a sequence is: the
  events are applied in order, a transcript update replaces that transcript and nothing
  else, and \<^verbatim>\<open>addManualMessage\<close> appends one segment to the manual messages and changes
  nothing else.
\<close>

theorem combinedTranscriptions_sorted_complete:
  "sorted_wrt (\<lambda>a b. firstReceivedTime a \<le> firstReceivedTime b)
       (combinedTranscriptions (hook_run h evs))
   \<and> length (combinedTranscriptions (hook_run h evs))
       = length (agentTranscriptions (hook_run h evs))
         + length (userTranscriptions (hook_run h evs))
         + length (manualMessages (hook_run h evs))
   \<and> mset (combinedTranscriptions (hook_run h evs))
       = mset (map (\<lambda>val. \<lparr> seg_id = rs_id val, seg_text = rs_text val, seg_role = Assistant,
                               firstReceivedTime = rs_firstReceivedTime val,
                               seg_rest = Some (rs_rest val) \<rparr>)
                   (agentTranscriptions (hook_run h evs)))
         + mset (map (\<lambda>val. \<lparr> seg_id = rs_id val, seg_text = rs_text val, seg_role = User,
                                 firstReceivedTime = rs_firstReceivedTime val,
                                 seg_rest = Some (rs_rest val) \<rparr>)
                     (userTranscriptions (hook_run h evs)))
         + mset (manualMessages (hook_run h evs))
   \<and> mset (map firstReceivedTime (combinedTranscriptions (hook_run h evs)))
       = mset (map rs_firstReceivedTime (agentTranscriptions (hook_run h evs)))
         + mset (map rs_firstReceivedTime (userTranscriptions (hook_run h evs)))
         + mset (map firstReceivedTime (manualMessages (hook_run h evs)))
   \<and> hook_run h [] = h
   \<and> hook_run h (evs @ [ev]) = hook_step (hook_run h evs) ev
   \<and> hook_step h (AgentTranscriptUpdate xs) = h\<lparr>agentTranscriptions := xs\<rparr>
   \<and> hook_step h (UserTranscriptUpdate xs) = h\<lparr>userTranscriptions := xs\<rparr>
   \<and> hook_step h (AddManualMessage txt r now_id rnd now)
       = h\<lparr>manualMessages := manualMessages h @
            [\<lparr> seg_id = ''manual-'' @ dec_of_int now_id @ ''-'' @ rnd, seg_text = txt,
               seg_role = (case r of None \<Rightarrow> User | Some r' \<Rightarrow> r'),
               firstReceivedTime = now, seg_rest = None \<rparr>]\<rparr>"
proof -
  let ?H = "hook_run h evs"
  let ?all = "map (with_role Assistant) (agentTranscriptions ?H)
              @ map (with_role User) (userTranscriptions ?H) @ manualMessages ?H"
  have tag: "with_role q = (\<lambda>val. \<lparr> seg_id = rs_id val, seg_text = rs_text val, seg_role = q,
                               firstReceivedTime = rs_firstReceivedTime val,
                               seg_rest = Some (rs_rest val) \<rparr>)"
    for q :: role
    by (rule ext) (simp add: with_role_def)
  have c: "combinedTranscriptions ?H
             = sort_cmp (\<lambda>a b. firstReceivedTime a - firstReceivedTime b) ?all"
    by (simp add: combinedTranscriptions_def)
  have srt: "sorted_wrt (\<lambda>a b. firstReceivedTime a \<le> firstReceivedTime b)
               (combinedTranscriptions ?H)"
    unfolding c by (rule sorted_sort_cmp)
  have ms: "mset (combinedTranscriptions ?H) = mset ?all"
    unfolding c by (rule mset_sort_cmp)
  have len: "length (combinedTranscriptions ?H) = length ?all"
    unfolding c by (rule length_sort_cmp)
  have "mset (map firstReceivedTime (combinedTranscriptions ?H))
          = image_mset firstReceivedTime (mset ?all)"
    using ms by (metis mset_map)
  then have ts: "mset (map firstReceivedTime (combinedTranscriptions ?H))
       = mset (map rs_firstReceivedTime (agentTranscriptions ?H))
         + mset (map rs_firstReceivedTime (userTranscriptions ?H))
         + mset (map firstReceivedTime (manualMessages ?H))"
    by (simp add: tag image_mset.compositionality comp_def)
  have run: "hook_run h [] = h" "hook_run h (evs @ [ev]) = hook_step (hook_run h evs) ev"
    by (simp_all add: hook_run_def)
  have step: "hook_step h (AddManualMessage txt r now_id rnd now)
       = h\<lparr>manualMessages := manualMessages h @
            [\<lparr> seg_id = ''manual-'' @ dec_of_int now_id @ ''-'' @ rnd, seg_text = txt,
               seg_role = (case r of None \<Rightarrow> User | Some r' \<Rightarrow> r'),
               firstReceivedTime = now, seg_rest = None \<rparr>]\<rparr>"
    by (simp add: addManualMessage_def Let_def)
  from srt ms len ts run step show ?thesis
    by (simp add: tag)
qed

text \<open>
  One run: two typed messages around a segment spoken by the agent, the later one typed
  first; its identifier and its timestamp come from two readings of the clock.
\<close>

lemma combinedTranscriptions_example:
  "combinedTranscriptions
     (hook_run (hook_init [agent_segment] [])
        [AddManualMessage ''later'' None 7 ''k3j9x2a'' 8,
         AddManualMessage ''first'' None 3 ''p0q8w1z'' 3])
   = [\<lparr>seg_id = ''manual-3-p0q8w1z'', seg_text = ''first'', seg_role = User,
        firstReceivedTime = 3, seg_rest = None\<rparr>,
      \<lparr>seg_id = ''SG_1'', seg_text = ''Hello'', seg_role = Assistant,
        firstReceivedTime = 5, seg_rest = Some ()\<rparr>,
      \<lparr>seg_id = ''manual-7-k3j9x2a'', seg_text = ''later'', seg_role = User,
        firstReceivedTime = 8, seg_rest = None\<rparr>]"
  by code_simp

section \<open>The proxy route\<close>

lemma join_Cons: "join (p # ps) sep = p @ concat (map (\<lambda>q. sep @ q) ps)"
  by (induction ps arbitrary: p) simp_all

lemma map_eq_self: "map f xs = xs \<longleftrightarrow> (\<forall>x\<in>set xs. f x = x)"
  by (induction xs) auto

lemma JSON_stringify_in_range: "JSON_stringify v = v \<longleftrightarrow> in_range v"
proof (induction v)
  case (JsonNum n)
  show ?case by (cases n) simp_all
next
  case (JsonArr vs)
  then show ?case
    by (simp add: map_eq_self list_all_iff)
next
  case (JsonObj ps)
  then have ih: "(JSON_stringify v = v) = in_range v" if "(k, v) \<in> set ps" for k v
    using that by auto
  have "(\<forall>p\<in>set ps. (case p of (k, v) \<Rightarrow> (k, JSON_stringify v)) = p)
          \<longleftrightarrow> (\<forall>p\<in>set ps. case p of (k, v) \<Rightarrow> in_range v)"
    using ih by (auto split: prod.splits)
  then show ?case
    by (simp add: map_eq_self list_all_iff)
qed simp_all

lemma GET_cases:
  "GET env fetch path =
     (case fetch (GET_request env path) of
        FetchRejected \<Rightarrow>
          \<lparr>status = 500,
            body = JsonObj [(''error'', JsonStr ''Failed to communicate with intake agent'')]\<rparr>
      | FetchResolved st BodyNotJson \<Rightarrow>
          \<lparr>status = 500,
            body = JsonObj [(''error'', JsonStr ''Failed to communicate with intake agent'')]\<rparr>
      | FetchResolved st (BodyJson data) \<Rightarrow> \<lparr>status = 200, body = JSON_stringify data\<rparr>)"
  by (simp add: GET_def error_response_def NextResponse_json_def
        split: backend_outcome.splits parsed_body.splits)

lemma POST_cases:
  "POST env fetch (BodyJson b) path =
     (case fetch (POST_request env b path) of
        FetchRejected \<Rightarrow>
          \<lparr>status = 500,
            body = JsonObj [(''error'', JsonStr ''Failed to communicate with intake agent'')]\<rparr>
      | FetchResolved st BodyNotJson \<Rightarrow>
          \<lparr>status = 500,
            body = JsonObj [(''error'', JsonStr ''Failed to communicate with intake agent'')]\<rparr>
      | FetchResolved st (BodyJson data) \<Rightarrow> \<lparr>status = 200, body = JSON_stringify data\<rparr>)"
  by (simp add: POST_def error_response_def NextResponse_json_def
        split: backend_outcome.splits parsed_body.splits)

text \<open>
  Claim C4, as the code has it. The base URL is the configured \<^verbatim>\<open>INTAKE_API_URL\<close>, or
  \<^verbatim>\<open>http://localhost:8000/api/intake\<close> when none (or an empty one) is configured. A GET
  with trailing path segments issues its fetch to the base URL, a slash, and the segments
  joined by slashes; when the fetch resolves and the body parses, the route answers status
  200 with the parsed body serialised again, which is the body as it is unless it holds a
  number out of range, sent as \<^verbatim>\<open>null\<close>; when the fetch rejects or the body does not
  parse, it answers status 500 with the body
  \<^verbatim>\<open>{error: "Failed to communicate with intake agent"}\<close>, and no exception leaves the
  handler. The POST handler does the same, forwarding the JSON body of the incoming
  request serialised again in the same way (and answering the same 500 when that body is
  not JSON).
\<close>

theorem proxy_route_contract:
  "INTAKE_API_BASE_URL env =
       (case env of
          None \<Rightarrow> ''http://localhost:8000/api/intake''
        | Some u \<Rightarrow> if u = [] then ''http://localhost:8000/api/intake'' else u)
   \<and> fetch_url (GET_request env path) = INTAKE_API_BASE_URL env @ ''/'' @ join path ''/''
   \<and> fetch_method (GET_request env path) = GET_method
   \<and> fetch_body (GET_request env path) = None
   \<and> GET env fetch path =
       (case fetch (GET_request env path) of
          FetchRejected \<Rightarrow>
            \<lparr>status = 500,
              body = JsonObj [(''error'', JsonStr ''Failed to communicate with intake agent'')]\<rparr>
        | FetchResolved st BodyNotJson \<Rightarrow>
            \<lparr>status = 500,
              body = JsonObj [(''error'', JsonStr ''Failed to communicate with intake agent'')]\<rparr>
        | FetchResolved st (BodyJson data) \<Rightarrow> \<lparr>status = 200, body = JSON_stringify data\<rparr>)
   \<and> fetch_url (POST_request env b path) = INTAKE_API_BASE_URL env @ ''/'' @ join path ''/''
   \<and> fetch_method (POST_request env b path) = POST_method
   \<and> fetch_body (POST_request env b path) = Some (JSON_stringify b)
   \<and> POST env fetch (BodyJson b) path =
       (case fetch (POST_request env b path) of
          FetchRejected \<Rightarrow>
            \<lparr>status = 500,
              body = JsonObj [(''error'', JsonStr ''Failed to communicate with intake agent'')]\<rparr>
        | FetchResolved st BodyNotJson \<Rightarrow>
            \<lparr>status = 500,
              body = JsonObj [(''error'', JsonStr ''Failed to communicate with intake agent'')]\<rparr>
        | FetchResolved st (BodyJson data) \<Rightarrow> \<lparr>status = 200, body = JSON_stringify data\<rparr>)
   \<and> POST env fetch BodyNotJson path =
        \<lparr>status = 500,
          body = JsonObj [(''error'', JsonStr ''Failed to communicate with intake agent'')]\<rparr>
   \<and> fetch_headers (GET_request env path) = [(''Content-Type'', ''application/json'')]
   \<and> fetch_headers (POST_request env b path) = [(''Content-Type'', ''application/json'')]
   \<and> (JSON_stringify v = v \<longleftrightarrow> in_range v)
   \<and> JSON_stringify (JsonNum PlusInfinity) = JsonNull
   \<and> JSON_stringify (JsonNum MinusInfinity) = JsonNull
   \<and> JSON_stringify (JsonNum (Finite x)) = JsonNum (Finite x)
   \<and> JSON_stringify (JsonArr vs) = JsonArr (map JSON_stringify vs)
   \<and> JSON_stringify (JsonObj kvs) = JsonObj (map (\<lambda>(k, w). (k, JSON_stringify w)) kvs)
   \<and> join [] ''/'' = []
   \<and> join (p # ps) ''/'' = p @ concat (map (\<lambda>q. ''/'' @ q) ps)"
proof -
  have base: "INTAKE_API_BASE_URL env =
       (case env of
          None \<Rightarrow> ''http://localhost:8000/api/intake''
        | Some u \<Rightarrow> if u = [] then ''http://localhost:8000/api/intake'' else u)"
    by (simp add: INTAKE_API_BASE_URL_def split: option.splits)
  have req: "fetch_url (GET_request env path) = INTAKE_API_BASE_URL env @ ''/'' @ join path ''/''"
    "fetch_method (GET_request env path) = GET_method"
    "fetch_body (GET_request env path) = None"
    "fetch_url (POST_request env b path) = INTAKE_API_BASE_URL env @ ''/'' @ join path ''/''"
    "fetch_method (POST_request env b path) = POST_method"
    "fetch_body (POST_request env b path) = Some (JSON_stringify b)"
    by (simp_all add: GET_request_def POST_request_def Let_def)
  have bad: "POST env fetch BodyNotJson path =
        \<lparr>status = 500,
          body = JsonObj [(''error'', JsonStr ''Failed to communicate with intake agent'')]\<rparr>"
    by (simp add: POST_def error_response_def NextResponse_json_def)
  have hdr: "fetch_headers (GET_request env path) = [(''Content-Type'', ''application/json'')]"
    "fetch_headers (POST_request env b path) = [(''Content-Type'', ''application/json'')]"
    by (simp_all add: GET_request_def POST_request_def Let_def json_headers_def)
  have inf: "JSON_stringify (JsonNum PlusInfinity) = JsonNull"
    "JSON_stringify (JsonNum MinusInfinity) = JsonNull"
    "JSON_stringify (JsonNum (Finite x)) = JsonNum (Finite x)"
    "JSON_stringify (JsonArr vs) = JsonArr (map JSON_stringify vs)"
    "JSON_stringify (JsonObj kvs) = JsonObj (map (\<lambda>(k, w). (k, JSON_stringify w)) kvs)"
    by simp_all
  have j: "join [] ''/'' = []" "join (p # ps) ''/'' = p @ concat (map (\<lambda>q. ''/'' @ q) ps)"
    by (simp_all add: join_Cons)
  from base req GET_cases [of env fetch path] POST_cases [of env fetch b path] bad hdr
    JSON_stringify_in_range [of v] inf j
  show ?thesis by blast
qed

theorem proxy_route_contract_witness:
  "fetch_url (GET_request (Some ''http://backend:9000/base'') [''foo'', ''bar''])
     = ''http://backend:9000/base/foo/bar''
   \<and> fetch_url (GET_request None [''foo'', ''bar'']) = ''http://localhost:8000/api/intake/foo/bar''
   \<and> GET (Some ''http://backend:9000/base'') listing_backend [''foo'', ''bar'']
     = \<lparr>status = 200,
        body = JsonObj [(''price'', JsonNum (Finite 5)), (''tags'', JsonArr [JsonStr ''a''])]\<rparr>
   \<and> GET None listing_backend [''foo'', ''bar'']
     = \<lparr>status = 500,
        body = JsonObj [(''error'', JsonStr ''Failed to communicate with intake agent'')]\<rparr>"
proof -
  note a = proxy_route_contract
    [where env = "Some ''http://backend:9000/base''" and fetch = listing_backend
       and path = "[''foo'', ''bar'']"]
  note b = proxy_route_contract
    [where env = None and fetch = listing_backend and path = "[''foo'', ''bar'']"]
  from a b show ?thesis
    by (simp add: listing_backend_def)
qed

text \<open>
  Claim C4 as stated has the parsed body returned verbatim, and for a body holding a
  number out of range it does not hold: the backend's body \<^verbatim>\<open>{"price": 1e999}\<close> parses
  to an infinity, which the route sends on as \<^verbatim>\<open>null\<close>.
\<close>

theorem proxy_overflow_counterexample:
  "overflow_backend (GET_request None [''listing''])
     = FetchResolved 200 (BodyJson (JsonObj [(''price'', JsonNum PlusInfinity)]))
   \<and> GET None overflow_backend [''listing'']
     = \<lparr>status = 200, body = JsonObj [(''price'', JsonNull)]\<rparr>
   \<and> JsonObj [(''price'', JsonNull)] \<noteq> JsonObj [(''price'', JsonNum PlusInfinity)]"
  by (simp add: overflow_backend_def GET_def NextResponse_json_def)

text \<open>
  Claim C9, as the code has it. The proxy route does not relay the backend's status:
  whenever the backend's response has a body that parses as JSON, whatever its status
  (404 and 500 included), the GET and the POST handler answer status 200 with that body
  serialised again, which is the body as it is unless it holds a number out of range,
  sent as \<^verbatim>\<open>null\<close>. A response of the route with another status is the fixed 500
  response, and comes only from a throw: the fetch rejected, or a body (the backend's, or
  for POST the incoming request's) was not JSON.
\<close>

theorem proxy_status_not_relayed:
  assumes "fetch (GET_request env path) = FetchResolved st (BodyJson data)"
    and "fetch' (POST_request env b path') = FetchResolved st' (BodyJson data')"
  shows "GET env fetch path = \<lparr>status = 200, body = JSON_stringify data\<rparr>
     \<and> POST env fetch' (BodyJson b) path' = \<lparr>status = 200, body = JSON_stringify data'\<rparr>
     \<and> (JSON_stringify data = data \<longleftrightarrow> in_range data)
     \<and> (JSON_stringify data' = data' \<longleftrightarrow> in_range data')
     \<and> (status (GET env g q) = 200
         \<or> (GET env g q = error_response
            \<and> status error_response = 500
            \<and> isl (response_json (g (GET_request env q)))))
     \<and> (status (POST env g incoming q) = 200
         \<or> (POST env g incoming q = error_response
            \<and> (incoming = BodyNotJson
                \<or> (\<exists>c. incoming = BodyJson c
                       \<and> isl (response_json (g (POST_request env c q)))))))"
proof -
  from assms have "GET env fetch path = \<lparr>status = 200, body = JSON_stringify data\<rparr>"
    and "POST env fetch' (BodyJson b) path' = \<lparr>status = 200, body = JSON_stringify data'\<rparr>"
    by (simp_all add: GET_def POST_def NextResponse_json_def)
  moreover have "status (GET env g q) = 200
         \<or> (GET env g q = error_response
            \<and> status error_response = 500
            \<and> isl (response_json (g (GET_request env q))))"
    by (auto simp: GET_def NextResponse_json_def error_response_def split: sum.splits)
  moreover have "status (POST env g incoming q) = 200
         \<or> (POST env g incoming q = error_response
            \<and> (incoming = BodyNotJson
                \<or> (\<exists>c. incoming = BodyJson c
                       \<and> isl (response_json (g (POST_request env c q))))))"
    by (auto simp: POST_def NextResponse_json_def error_response_def
          split: sum.splits parsed_body.splits)
  ultimately show ?thesis
    using JSON_stringify_in_range [of data] JSON_stringify_in_range [of data'] by blast
qed

theorem proxy_status_not_relayed_witness:
  "error_status_backend (GET_request None [''foo'', ''bar''])
     = FetchResolved 404 (BodyJson (JsonObj [(''detail'', JsonStr ''Not Found'')]))
   \<and> error_status_backend (POST_request None (JsonObj []) [''text-message''])
     = FetchResolved 500 (BodyJson (JsonObj [(''detail'', JsonStr ''Internal Server Error'')]))
   \<and> GET None error_status_backend [''foo'', ''bar'']
     = \<lparr>status = 200, body = JsonObj [(''detail'', JsonStr ''Not Found'')]\<rparr>
   \<and> POST None error_status_backend (BodyJson (JsonObj [])) [''text-message'']
     = \<lparr>status = 200, body = JsonObj [(''detail'', JsonStr ''Internal Server Error'')]\<rparr>"
proof -
  have h1: "error_status_backend (GET_request None [''foo'', ''bar''])
              = FetchResolved 404 (BodyJson (JsonObj [(''detail'', JsonStr ''Not Found'')]))"
    by (simp add: error_status_backend_def GET_request_def Let_def)
  have h2: "error_status_backend (POST_request None (JsonObj []) [''text-message''])
              = FetchResolved 500
                  (BodyJson (JsonObj [(''detail'', JsonStr ''Internal Server Error'')]))"
    by (simp add: error_status_backend_def POST_request_def Let_def)
  from proxy_status_not_relayed
         [where fetch = error_status_backend and fetch' = error_status_backend, OF h1 h2] h1 h2
  show ?thesis by simp
qed

text \<open>
  Claim C9 as stated has that JSON body returned, and for a body holding a number out of
  range it does not hold: the backend answers 404 with the body \<^verbatim>\<open>[-1e999]\<close>, and the
  POST handler answers 200 with \<^verbatim>\<open>[null]\<close>.
\<close>

theorem proxy_not_found_overflow_counterexample:
  "not_found_overflow_backend (POST_request None (JsonObj []) [''text-message''])
     = FetchResolved 404 (BodyJson (JsonArr [JsonNum MinusInfinity]))
   \<and> POST None not_found_overflow_backend (BodyJson (JsonObj [])) [''text-message'']
     = \<lparr>status = 200, body = JsonArr [JsonNull]\<rparr>
   \<and> JsonArr [JsonNull] \<noteq> JsonArr [JsonNum MinusInfinity]"
  by (simp add: not_found_overflow_backend_def POST_def NextResponse_json_def)

end
